theory Spec2Isabelle
  imports Complex_Main
begin

section \<open>The MTS driver of xtesting (\<^verbatim>\<open>xtesting/core/mts.py\<close>)\<close>

text \<open>
  The class \<^verbatim>\<open>MTSLauncher\<close> drives the external MTS tool: it reads the XML test
  definition, launches the tool through the base class \<^verbatim>\<open>BashFeature\<close>, and parses
  the report \<^verbatim>\<open>testPlan.csv\<close> into counters. The model follows the Python source
  method by method. Mutation of \<^verbatim>\<open>self\<close> is explicit state passing, every exception
  is a value, and what the libraries deliver (\<^verbatim>\<open>etree.parse\<close>, \<^verbatim>\<open>csv.reader\<close>,
  \<^verbatim>\<open>os\<close>, \<^verbatim>\<open>shutil\<close>, the base class's \<^verbatim>\<open>execute\<close>) is a parameter.
  Calls of the logger change no value and are left out; so are the two time stamps
  \<^verbatim>\<open>start_time\<close> and \<^verbatim>\<open>stop_time\<close>.
\<close>

subsection \<open>Exceptions and results\<close>

datatype py_error =
    KeyError
  | NameError
  | ZeroDivisionError
  | XMLSyntaxError
  | FileNotFoundError
  | OSError

text \<open>
  A Python float is a binary64 number. The model takes a float for the rational number
  it denotes, and \<open>binary64 x\<close> is the float nearest to \<open>x\<close>, as every operation of
  IEEE 754 rounds its exact result: 53 significant bits, the least exponent -1074 (so
  the small numbers are the subnormal ones), a tie to the even neighbour. The
  exponent has no upper bound here: a magnitude of \<open>2 ^ 1024\<close> or more, where CPython
  raises \<^verbatim>\<open>OverflowError\<close> for a division of ints and gives \<^verbatim>\<open>inf\<close> for a product,
  takes a counter of \<open>2 ^ 1000\<close> or more and is left out.
\<close>

definition pow2 :: "int \<Rightarrow> rat" where
  "pow2 e = (if 0 \<le> e then 2 ^ nat e else 1 / 2 ^ nat (- e))"

text \<open>\<^verbatim>\<open>int.bit_length\<close>, for a number that is not negative.\<close>

function bit_length :: "int \<Rightarrow> int" where
  "bit_length n = (if n \<le> 0 then 0 else 1 + bit_length (n div 2))"
  by pat_completeness auto
termination
  by (relation "measure nat") auto

declare bit_length.simps [simp del]

text \<open>The exponent \<open>e\<close> with \<open>2 ^ e \<le> x < 2 ^ (e + 1)\<close>, for a positive \<open>x\<close>.\<close>

definition floor_log2 :: "rat \<Rightarrow> int" where
  "floor_log2 x =
     (if 1 \<le> x then bit_length \<lfloor>x\<rfloor> - 1
      else - bit_length (\<lceil>1 / x\<rceil> - 1))"

definition round_half_even :: "rat \<Rightarrow> int" where
  "round_half_even x =
     (let f = \<lfloor>x\<rfloor>; d = x - of_int f
      in if d < 1 / 2 then f
         else if 1 / 2 < d then f + 1
         else if even f then f else f + 1)"

definition binary64 :: "rat \<Rightarrow> rat" where
  "binary64 x =
     (if x = 0 then 0
      else (let a = \<bar>x\<bar>;
                q = max (floor_log2 a - 52) (- 1074);
                m = round_half_even (a / pow2 q)
            in sgn x * of_int m * pow2 q))"

text \<open>
  \<^verbatim>\<open>pass_tests / total_tests\<close> is Python 3's true division of two ints. It raises on
  a zero divisor, and gives the float nearest to the quotient otherwise.
\<close>

definition truediv :: "int \<Rightarrow> int \<Rightarrow> py_error + rat" where
  "truediv a b = (if b = 0 then Inl ZeroDivisionError else Inr (binary64 (of_int a / of_int b)))"

text \<open>\<^verbatim>\<open>100 * q\<close> for a float \<open>q\<close>: the product of two floats, rounded.\<close>

definition float_mul :: "rat \<Rightarrow> rat \<Rightarrow> rat" where
  "float_mul x y = binary64 (x * y)"

subsection \<open>The driver's state\<close>

type_synonym test_dict = "(string \<times> string) list"

record details_dict =
  description :: string
  d_total_tests :: int
  d_pass_tests :: int
  d_fail_tests :: int
  d_skip_tests :: int
  d_tests :: "test_dict list"

record mts_launcher =
  res_dir :: string
  mts_stats_dir :: string
  mts_logs_dir :: string
  mts_result_csv_file :: string
  total_tests :: int
  pass_tests :: int
  fail_tests :: int
  skip_tests :: int
  testcases :: "string list"
  result :: rat
  details :: "details_dict option"

definition sep :: string where
  "sep = ''/''"

definition mts_install_dir :: string where
  "mts_install_dir = ''/opt/mts''"

text \<open>\<^verbatim>\<open>os.path.join(a, b)\<close> for a relative second component, on POSIX.\<close>

definition path_join :: "string \<Rightarrow> string \<Rightarrow> string" where
  "path_join a b = (if a = [] \<or> last a = CHR ''/'' then a @ b else a @ sep @ b)"

text \<open>
  \<^verbatim>\<open>__init__\<close>: the base class supplies \<^verbatim>\<open>res_dir\<close>, and leaves \<^verbatim>\<open>result\<close> at 0
  and \<^verbatim>\<open>details\<close> empty; the constructor of the source sets the rest.
\<close>

definition MTSLauncher_init :: "string \<Rightarrow> mts_launcher" where
  "MTSLauncher_init rd =
     \<lparr> res_dir = rd,
       mts_stats_dir = path_join rd ''mts_stats_report'',
       mts_logs_dir = path_join rd (''mts_logs'' @ sep),
       mts_result_csv_file = mts_install_dir @ sep @ ''logs'' @ sep @ ''testPlan.csv'',
       total_tests = 0,
       pass_tests = 0,
       fail_tests = 0,
       skip_tests = 0,
       testcases = [],
       result = 0,
       details = None \<rparr>"

subsection \<open>\<^verbatim>\<open>parse_results\<close>\<close>

text \<open>
  The local variables of the loop. \<^verbatim>\<open>test_name\<close> is bound only by a 2-field row, so
  it is an option: reading it while it is \<open>None\<close> is Python's \<^verbatim>\<open>UnboundLocalError\<close>,
  a \<^verbatim>\<open>NameError\<close>. \<^verbatim>\<open>msg\<close> holds the rows added to the pretty table.
\<close>

record parse_locals =
  rownum :: nat
  test_name :: "string option"
  tests_data :: "test_dict list"
  msg :: "(string \<times> string \<times> string) list"

text \<open>
  \<^verbatim>\<open>str.lstrip()\<close> removes the leading whitespace. The characters of the model are
  bytes: \<open>is_space\<close> holds for the ASCII characters for which \<^verbatim>\<open>str.isspace\<close> does.
\<close>

definition is_space :: "char \<Rightarrow> bool" where
  "is_space c = (c \<in> set [CHR '' '', CHR 0x09, CHR 0x0A, CHR 0x0B, CHR 0x0C, CHR 0x0D,
                            CHR 0x1C, CHR 0x1D, CHR 0x1E, CHR 0x1F])"

definition lstrip :: "string \<Rightarrow> string" where
  "lstrip s = dropWhile is_space s"

text \<open>The end of every iteration: \<^verbatim>\<open>rownum += 1; _tests_data.append(_test_dict)\<close>.\<close>

definition next_row :: "test_dict \<Rightarrow> parse_locals \<Rightarrow> parse_locals" where
  "next_row td l = l\<lparr>rownum := rownum l + 1, tests_data := tests_data l @ [td]\<rparr>"

text \<open>The \<^verbatim>\<open>if/elif/elif\<close> on the status of a 3-field row.\<close>

definition count_status :: "string \<Rightarrow> mts_launcher \<Rightarrow> mts_launcher" where
  "count_status testcase_status self =
     (if testcase_status = ''OK'' then self\<lparr>pass_tests := pass_tests self + 1\<rparr>
      else if testcase_status = ''Failed'' then self\<lparr>fail_tests := fail_tests self + 1\<rparr>
      else if testcase_status = ''?'' then self\<lparr>skip_tests := skip_tests self + 1\<rparr>
      else self)"

text \<open>
  One iteration of \<^verbatim>\<open>for row in reader\<close>. The counters are updated before the table
  row is built, so they keep their new values when the iteration raises.
\<close>

definition for_body ::
  "string list \<Rightarrow> parse_locals \<Rightarrow> mts_launcher \<Rightarrow> (py_error + parse_locals) \<times> mts_launcher" where
  "for_body row l self =
     (let nb_values = length row in
      if rownum l > 0 then
        if nb_values = 2 then
          (Inr (next_row [(''parent'', row ! 0)] (l\<lparr>test_name := Some (row ! 0)\<rparr>)), self)
        else if nb_values = 3 then
          (let testcase_name = lstrip (row ! 0);
               testcase_status = row ! 2;
               self' = count_status testcase_status (self\<lparr>total_tests := total_tests self + 1\<rparr>)
           in case test_name l of
                None \<Rightarrow> (Inl NameError, self')
              | Some tn \<Rightarrow>
                  (Inr (next_row [(''status'', testcase_status), (''name'', testcase_name)]
                          (l\<lparr>msg := msg l @ [(tn, testcase_name, testcase_status)]\<rparr>)), self'))
        else (Inr (next_row [] l), self)
      else (Inr (next_row [] l), self))"

fun for_rows ::
  "string list list \<Rightarrow> parse_locals \<Rightarrow> mts_launcher \<Rightarrow> (py_error + parse_locals) \<times> mts_launcher" where
  "for_rows [] l self = (Inr l, self)"
| "for_rows (row # rows) l self =
     (case for_body row l self of
        (Inl e, self') \<Rightarrow> (Inl e, self')
      | (Inr l', self') \<Rightarrow> for_rows rows l' self')"

definition init_locals :: parse_locals where
  "init_locals = \<lparr> rownum = 0, test_name = None, tests_data = [], msg = [] \<rparr>"

text \<open>The \<^verbatim>\<open>try: self.result = 100 * (pass / total) except ZeroDivisionError\<close>.\<close>

definition set_result :: "mts_launcher \<Rightarrow> mts_launcher" where
  "set_result self =
     (case truediv (pass_tests self) (total_tests self) of
        Inl _ \<Rightarrow> self
      | Inr q \<Rightarrow> self\<lparr>result := float_mul 100 q\<rparr>)"

definition set_details :: "test_dict list \<Rightarrow> mts_launcher \<Rightarrow> mts_launcher" where
  "set_details td self =
     self\<lparr>details := Some \<lparr> description = ''Execution of some MTS tests'',
                              d_total_tests = total_tests self,
                              d_pass_tests = pass_tests self,
                              d_fail_tests = fail_tests self,
                              d_skip_tests = skip_tests self,
                              d_tests = td \<rparr>\<rparr>"

text \<open>
  \<open>stream\<close> is what \<^verbatim>\<open>open(self.mts_result_csv_file)\<close> and \<^verbatim>\<open>csv.reader\<close> with the
  delimiter \<^verbatim>\<open>;\<close> deliver: the rows of the file, or the exception of \<^verbatim>\<open>open\<close>.
\<close>

definition parse_results ::
  "py_error + string list list \<Rightarrow> mts_launcher \<Rightarrow> (py_error + unit) \<times> mts_launcher" where
  "parse_results stream self =
     (case stream of
        Inl e \<Rightarrow> (Inl e, self)
      | Inr reader \<Rightarrow>
          (case for_rows reader init_locals self of
             (Inl e, self') \<Rightarrow> (Inl e, self')
           | (Inr l, self') \<Rightarrow> (Inr (), set_details (tests_data l) (set_result self'))))"

text \<open>
  The vocabulary of the specification: a 3-field row whose status is none of the
  three literals, counted over a list of rows.
\<close>

definition unrecognized :: "string list \<Rightarrow> bool" where
  "unrecognized row = (length row = 3 \<and> row ! 2 \<noteq> ''OK'' \<and> row ! 2 \<noteq> ''Failed'' \<and> row ! 2 \<noteq> ''?'')"

definition unrecognized_rows :: "string list list \<Rightarrow> nat" where
  "unrecognized_rows rows = length (filter unrecognized rows)"

text \<open>The tests that are counted but fall in none of the three buckets.\<close>

definition uncounted :: "mts_launcher \<Rightarrow> int" where
  "uncounted self = total_tests self - (pass_tests self + fail_tests self + skip_tests self)"

text \<open>
  More vocabulary of the specification: the 3-field rows of a list of rows, and those
  with a given status.
\<close>

definition leaf_rows :: "string list list \<Rightarrow> nat" where
  "leaf_rows rows = length (filter (\<lambda>row. length row = 3) rows)"

definition status_rows :: "string \<Rightarrow> string list list \<Rightarrow> nat" where
  "status_rows st rows = length (filter (\<lambda>row. length row = 3 \<and> row ! 2 = st) rows)"

text \<open>
  Every 3-field row of the list has a 2-field row before it; \<open>seen\<close> tells whether
  a 2-field row came before the list.
\<close>

fun grouped :: "bool \<Rightarrow> string list list \<Rightarrow> bool" where
  "grouped seen [] = True"
| "grouped seen (row # rows) =
     (if length row = 2 then grouped True rows
      else if length row = 3 then seen \<and> grouped seen rows
      else grouped seen rows)"

subsection \<open>\<^verbatim>\<open>parse_xml_test_file\<close>\<close>

text \<open>
  An XML document as \<^verbatim>\<open>etree.parse\<close> delivers it: elements with a tag, attributes
  and children, and character data.
\<close>

datatype xml =
    Element string "(string \<times> string) list" "xml list"
  | Text string

text \<open>
  The query \<^verbatim>\<open>//test//testcase/@name\<close>: the \<^verbatim>\<open>name\<close> attributes of the
  \<^verbatim>\<open>testcase\<close> elements that lie below a \<^verbatim>\<open>test\<close> element at any depth, in
  document order. \<open>below\<close> tells whether an ancestor is a \<^verbatim>\<open>test\<close> element.
\<close>

fun names_below :: "bool \<Rightarrow> xml \<Rightarrow> string list" where
  "names_below below (Text t) = []"
| "names_below below (Element tag attrs children) =
     (if below \<and> tag = ''testcase''
      then (case map_of attrs ''name'' of None \<Rightarrow> [] | Some v \<Rightarrow> [v])
      else [])
     @ concat (map (names_below (below \<or> tag = ''test'')) children)"

definition xpath_test_testcase_name :: "xml \<Rightarrow> string list" where
  "xpath_test_testcase_name doc = names_below False doc"

text \<open>The number of \<^verbatim>\<open>testcase\<close> elements of a document, wherever they are.\<close>

fun testcase_nodes :: "xml \<Rightarrow> nat" where
  "testcase_nodes (Text t) = 0"
| "testcase_nodes (Element tag attrs children) =
     (if tag = ''testcase'' then 1 else 0) + sum_list (map testcase_nodes children)"

text \<open>
  \<open>parsed\<close> is what \<^verbatim>\<open>etree.parse(xml_test_file, parser=parser)\<close> delivers: the
  document, \<^verbatim>\<open>XMLSyntaxError\<close> for a document that is not well-formed, or another
  exception (a file that cannot be read). Only \<^verbatim>\<open>XMLSyntaxError\<close> is caught.
\<close>

definition parse_xml_test_file ::
  "py_error + xml \<Rightarrow> mts_launcher \<Rightarrow> (py_error + int) \<times> mts_launcher" where
  "parse_xml_test_file parsed self =
     (let nb_testcases = - 1 in
      case parsed of
        Inl XMLSyntaxError \<Rightarrow> (Inr nb_testcases, self)
      | Inl e \<Rightarrow> (Inl e, self)
      | Inr doc \<Rightarrow>
          (let self' = self\<lparr>testcases := xpath_test_testcase_name doc\<rparr>
           in (Inr (int (length (testcases self'))), self')))"

subsection \<open>\<^verbatim>\<open>check_enabled_mts_test_cases\<close>\<close>

text \<open>The \<^verbatim>\<open>for\<close> loop: it returns \<^verbatim>\<open>False\<close> at the first name that is not declared.\<close>

fun for_enabled :: "string list \<Rightarrow> string list \<Rightarrow> bool" where
  "for_enabled declared [] = True"
| "for_enabled declared (enabled_testcase # rest) =
     (if enabled_testcase \<notin> set declared then False else for_enabled declared rest)"

definition check_enabled_mts_test_cases :: "mts_launcher \<Rightarrow> string list \<Rightarrow> bool" where
  "check_enabled_mts_test_cases self enabled_testcases =
     (if enabled_testcases \<noteq> [] then for_enabled (testcases self) enabled_testcases else True)"

subsection \<open>\<^verbatim>\<open>execute\<close>\<close>

text \<open>The keyword arguments that the driver reads; a key that is absent is \<open>None\<close>.\<close>

record kwargs =
  kw_test_file :: "string option"
  kw_log_level :: "string option"
  kw_store_method :: "string option"
  kw_testcases :: "string list option"

text \<open>
  The calls that reach outside the process, in the order they are made. A run returns
  the list of its calls: a call that is not in the list was not made.
\<close>

datatype os_call =
    EtreeParse string
  | OsRemove string
  | Rmtree string
  | Makedirs string
  | BaseExecute string
  | OpenCsv string

text \<open>
  The answers of the outside world. Every query is made at most once in a run, so an
  answer is the one given at the moment of the call. \<open>base_execute\<close> is the method
  \<^verbatim>\<open>execute\<close> of the base class \<^verbatim>\<open>BashFeature\<close>, which launches the command line as
  a subprocess and returns its exit code, or raises.
\<close>

record env =
  etree_parse :: "string \<Rightarrow> py_error + xml"
  open_csv :: "string \<Rightarrow> py_error + string list list"
  path_exists :: "string \<Rightarrow> bool"
  path_isdir :: "string \<Rightarrow> bool"
  os_raises :: "os_call \<Rightarrow> bool"
  base_execute :: "string \<Rightarrow> kwargs \<Rightarrow> py_error + int"

type_synonym 'a io = "(py_error + 'a) \<times> os_call list"

definition skip :: "unit io" where
  "skip = (Inr (), [])"

definition os_call_do :: "env \<Rightarrow> os_call \<Rightarrow> unit io" where
  "os_call_do e c = (if os_raises e c then Inl OSError else Inr (), [c])"

text \<open>Sequencing: what follows a statement that raised is not run.\<close>

definition and_then :: "unit io \<Rightarrow> 'a io \<Rightarrow> 'a io" where
  "and_then m k =
     (case m of
        (Inl err, calls) \<Rightarrow> (Inl err, calls)
      | (Inr u, calls) \<Rightarrow> (case k of (r, calls') \<Rightarrow> (r, calls @ calls')))"

text \<open>\<^verbatim>\<open>' '.join(names)\<close>.\<close>

fun join_spaces :: "string list \<Rightarrow> string" where
  "join_spaces [] = []"
| "join_spaces [x] = x"
| "join_spaces (x # y # ys) = x @ '' '' @ join_spaces (y # ys)"

definition build_cmd ::
  "string \<Rightarrow> string \<Rightarrow> string \<Rightarrow> string \<Rightarrow> string \<Rightarrow> string \<Rightarrow> string \<Rightarrow> string" where
  "build_cmd cwd test_file enabled_testcases_str log_level store_method stats logs =
     ''cd '' @ cwd @ '' && ./startCmd.sh '' @ test_file @ '' '' @ enabled_testcases_str
     @ '' -sequential -levelLog:'' @ log_level
     @ '' -storageLog:'' @ store_method
     @ '' -config:stats.REPORT_DIRECTORY+'' @ stats
     @ '' -config:logs.STORAGE_DIRECTORY+'' @ logs
     @ '' -genReport:true''
     @ '' -showRep:false''"

text \<open>
  The clean-up of the output of a previous run, the creation of the two output
  directories, and the launch through the base class.
\<close>

definition cleanup_and_launch :: "env \<Rightarrow> kwargs \<Rightarrow> mts_launcher \<Rightarrow> string \<Rightarrow> int io" where
  "cleanup_and_launch e kw self cmd =
     and_then (if path_exists e (mts_result_csv_file self)
               then os_call_do e (OsRemove (mts_result_csv_file self)) else skip)
    (and_then (if path_isdir e (mts_stats_dir self)
               then os_call_do e (Rmtree (mts_stats_dir self)) else skip)
    (and_then (os_call_do e (Makedirs (mts_stats_dir self)))
    (and_then (if path_isdir e (mts_logs_dir self)
               then os_call_do e (Rmtree (mts_logs_dir self)) else skip)
    (and_then (os_call_do e (Makedirs (mts_logs_dir self)))
              (base_execute e cmd kw, [BaseExecute cmd])))))"

text \<open>
  \<^verbatim>\<open>except KeyError\<close> encloses the whole body: a missing \<^verbatim>\<open>test_file\<close>, and a
  \<^verbatim>\<open>KeyError\<close> out of the base class, both end in \<^verbatim>\<open>return -1\<close>.
\<close>

definition except_KeyError :: "int io \<Rightarrow> int io" where
  "except_KeyError m =
     (case m of
        (Inl KeyError, calls) \<Rightarrow> (Inr (- 1), calls)
      | (r, calls) \<Rightarrow> (r, calls))"

definition execute :: "env \<Rightarrow> kwargs \<Rightarrow> mts_launcher \<Rightarrow> int io" where
  "execute e kw self =
     except_KeyError
       (case kw_test_file kw of
          None \<Rightarrow> (Inl KeyError, [])
        | Some test_file \<Rightarrow>
            (let log_level = (case kw_log_level kw of Some v \<Rightarrow> v | None \<Rightarrow> ''INFO'');
                 store_method = (case kw_store_method kw of Some v \<Rightarrow> v | None \<Rightarrow> ''FILE'');
                 cwd = mts_install_dir @ sep @ ''bin'';
                 enabled_testcases = (case kw_testcases kw of Some v \<Rightarrow> v | None \<Rightarrow> [])
             in if enabled_testcases \<noteq> [] \<and> \<not> check_enabled_mts_test_cases self enabled_testcases
                then (Inr (- 3), [])
                else
                  (let enabled_testcases_str =
                         (if enabled_testcases \<noteq> [] then join_spaces enabled_testcases else '''');
                       cmd = build_cmd cwd test_file enabled_testcases_str log_level store_method
                               (mts_stats_dir self) (mts_logs_dir self)
                   in cleanup_and_launch e kw self cmd)))"

subsection \<open>\<^verbatim>\<open>run\<close>\<close>

text \<open>The two exit codes of \<^verbatim>\<open>testcase.TestCase\<close> that the driver returns.\<close>

datatype exit_code = EX_OK | EX_RUN_ERROR

text \<open>
  Both \<^verbatim>\<open>try\<close> blocks catch every exception, so \<^verbatim>\<open>run\<close> always returns: an exit
  code, the driver as the run leaves it, and the calls it made.
\<close>

definition run :: "env \<Rightarrow> kwargs \<Rightarrow> mts_launcher \<Rightarrow> exit_code \<times> mts_launcher \<times> os_call list" where
  "run e kw self =
     (let self0 = self\<lparr>result := 0\<rparr> in
      case kw_test_file kw of
        None \<Rightarrow> (EX_RUN_ERROR, self0, [])
      | Some test_file \<Rightarrow>
          (case parse_xml_test_file (etree_parse e test_file) self0 of
             (Inl err, self1) \<Rightarrow> (EX_RUN_ERROR, self1, [EtreeParse test_file])
           | (Inr nb_testcases, self1) \<Rightarrow>
               if nb_testcases > 0 then
                 (case execute e kw self1 of
                    (Inl err, calls) \<Rightarrow> (EX_RUN_ERROR, self1, EtreeParse test_file # calls)
                  | (Inr rc, calls) \<Rightarrow>
                      if rc = 0 then
                        (case parse_results (open_csv e (mts_result_csv_file self1)) self1 of
                           (Inl err, self2) \<Rightarrow>
                             (EX_RUN_ERROR, self2,
                              EtreeParse test_file # calls @ [OpenCsv (mts_result_csv_file self1)])
                         | (Inr u, self2) \<Rightarrow>
                             (EX_OK, self2,
                              EtreeParse test_file # calls @ [OpenCsv (mts_result_csv_file self1)]))
                      else (EX_RUN_ERROR, self1, EtreeParse test_file # calls))
               else (EX_RUN_ERROR, self1, [EtreeParse test_file])))"

subsection \<open>A sample report\<close>

text \<open>
  A report as MTS writes it: the header, one group, four test cases (one of them with
  a status outside the three literals) and a row of one field.
\<close>

definition sample_csv :: "string list list" where
  "sample_csv =
     [[''Test'', ''Duration'', ''Status''],
      [''group'', ''''],
      [''  a'', ''1'', ''OK''],
      [''b'', ''2'', ''Failed''],
      [''c'', ''3'', ''?''],
      [''d'', ''4'', ''Error''],
      [''x'']]"

text \<open>A report of 25 test cases in one group: 7 have passed and 18 have failed.\<close>

definition report_7_of_25 :: "string list list" where
  "report_7_of_25 =
     [''Test'', ''Duration'', ''Status''] # [''group'', ''x''] #
     replicate 7 [''  passed'', ''1'', ''OK''] @ replicate 18 [''  failed'', ''2'', ''Failed'']"

text \<open>The driver after the sample report has been parsed once, and twice.\<close>

definition parsed_once :: mts_launcher where
  "parsed_once = snd (parse_results (Inr sample_csv) (MTSLauncher_init ''/res''))"

definition parsed_twice :: mts_launcher where
  "parsed_twice = snd (parse_results (Inr sample_csv) parsed_once)"

text \<open>
  A test definition with two test cases, one of them inside a \<^verbatim>\<open>for\<close> element, a
  world in which every call succeeds, and a call that enables a test case that is not
  declared.
\<close>

definition sample_env :: env where
  "sample_env =
     \<lparr> etree_parse = (\<lambda>p. Inr (Element ''test'' [(''name'', ''t'')]
                               [Element ''testcase'' [(''name'', ''a'')] [],
                                Element ''for'' [] [Element ''testcase'' [(''name'', ''b'')] []]])),
       open_csv = (\<lambda>p. Inr sample_csv),
       path_exists = (\<lambda>p. True),
       path_isdir = (\<lambda>p. False),
       os_raises = (\<lambda>c. False),
       base_execute = (\<lambda>cmd kw. Inr 0) \<rparr>"

definition sample_kwargs :: kwargs where
  "sample_kwargs =
     \<lparr> kw_test_file = Some ''test.xml'', kw_log_level = None, kw_store_method = None,
       kw_testcases = Some [''a'', ''c''] \<rparr>"

subsection \<open>The counters after the loop\<close>

lemma uncounted_count_status:
  "uncounted (count_status st (self\<lparr>total_tests := total_tests self + 1\<rparr>)) =
     uncounted self + (if st \<noteq> ''OK'' \<and> st \<noteq> ''Failed'' \<and> st \<noteq> ''?'' then 1 else 0)"
  by (simp add: uncounted_def count_status_def)

lemma for_body_rownum:
  "for_body row l self = (Inr l', self') \<Longrightarrow> rownum l' = rownum l + 1"
  by (auto simp: for_body_def next_row_def Let_def split: if_splits option.splits)

lemma for_body_header:
  "rownum l = 0 \<Longrightarrow> for_body row l self = (Inr (next_row [] l), self)"
  by (simp add: for_body_def)

lemma for_body_uncounted:
  "0 < rownum l \<Longrightarrow> for_body row l self = (Inr l', self') \<Longrightarrow>
     uncounted self' = uncounted self + (if unrecognized row then 1 else 0)"
  by (auto simp: for_body_def Let_def unrecognized_def uncounted_count_status
      split: if_splits option.splits)

lemma for_rows_uncounted:
  "0 < rownum l \<Longrightarrow> for_rows rows l self = (Inr l', self') \<Longrightarrow>
     uncounted self' = uncounted self + int (unrecognized_rows rows)"
proof (induction rows arbitrary: l self)
  case Nil
  then show ?case by (simp add: unrecognized_rows_def)
next
  case (Cons row rows)
  from Cons.prems(2) obtain l1 self1 where
    body: "for_body row l self = (Inr l1, self1)" and
    rest: "for_rows rows l1 self1 = (Inr l', self')"
    by (auto split: prod.splits sum.splits)
  from body have pos: "0 < rownum l1"
    by (simp add: for_body_rownum)
  have "uncounted self' = uncounted self1 + int (unrecognized_rows rows)"
    by (rule Cons.IH [OF pos rest])
  moreover from Cons.prems(1) body
  have "uncounted self1 = uncounted self + (if unrecognized row then 1 else 0)"
    by (rule for_body_uncounted)
  ultimately show ?case
    by (simp add: unrecognized_rows_def)
qed

lemma for_rows_init_uncounted:
  assumes loop: "for_rows rows init_locals self = (Inr l', self')"
  shows "uncounted self' = uncounted self + int (unrecognized_rows (tl rows))"
proof (cases rows)
  case Nil
  with loop show ?thesis
    by (simp add: unrecognized_rows_def)
next
  case (Cons h rest)
  have "for_body h init_locals self = (Inr (next_row [] init_locals), self)"
    by (rule for_body_header) (simp add: init_locals_def)
  with loop Cons have "for_rows rest (next_row [] init_locals) self = (Inr l', self')"
    by simp
  moreover have "0 < rownum (next_row [] init_locals)"
    by (simp add: next_row_def)
  ultimately have "uncounted self' = uncounted self + int (unrecognized_rows rest)"
    using for_rows_uncounted by blast
  with Cons show ?thesis by simp
qed

lemma uncounted_set_details_set_result:
  "uncounted (set_details td (set_result self)) = uncounted self"
  by (simp add: uncounted_def set_details_def set_result_def truediv_def)

subsection \<open>The loop over the rows\<close>

lemma count_status_fields [simp]:
  "total_tests (count_status st s) = total_tests s"
  "result (count_status st s) = result s"
  "pass_tests (count_status st s) = pass_tests s + (if st = ''OK'' then 1 else 0)"
  "fail_tests (count_status st s) = fail_tests s + (if st = ''Failed'' then 1 else 0)"
  "skip_tests (count_status st s) = skip_tests s + (if st = ''?'' then 1 else 0)"
  by (simp_all add: count_status_def)

lemma for_body_fst_indep: "fst (for_body row l a) = fst (for_body row l b)"
  by (simp add: for_body_def Let_def split: option.splits)

lemma for_body_counters:
  assumes "0 < rownum l" and "for_body row l self = (Inr l', self')"
  shows "total_tests self' = total_tests self + (if length row = 3 then 1 else 0)"
    and "pass_tests self' = pass_tests self + (if length row = 3 \<and> row ! 2 = ''OK'' then 1 else 0)"
    and "fail_tests self' = fail_tests self + (if length row = 3 \<and> row ! 2 = ''Failed'' then 1 else 0)"
    and "skip_tests self' = skip_tests self + (if length row = 3 \<and> row ! 2 = ''?'' then 1 else 0)"
    and "result self' = result self"
  using assms by (auto simp: for_body_def Let_def split: if_splits option.splits)

lemma for_body_raises:
  assumes "for_body row l self = (Inl err, self')"
  shows "err = NameError" and "total_tests self' = total_tests self + 1"
  using assms by (auto simp: for_body_def Let_def split: if_splits option.splits)

lemma for_body_result: "for_body row l self = (r, self') \<Longrightarrow> result self' = result self"
  by (auto simp: for_body_def Let_def split: if_splits option.splits)

lemma for_body_total_mono: "for_body row l self = (r, self') \<Longrightarrow> total_tests self \<le> total_tests self'"
  by (auto simp: for_body_def Let_def split: if_splits option.splits)

lemma for_rows_fst_indep: "fst (for_rows rows l a) = fst (for_rows rows l b)"
proof (induction rows arbitrary: l a b)
  case Nil
  show ?case by simp
next
  case (Cons row rows)
  obtain x a1 where a: "for_body row l a = (x, a1)" by (cases "for_body row l a")
  obtain y b1 where b: "for_body row l b = (y, b1)" by (cases "for_body row l b")
  from a b for_body_fst_indep [of row l a b] have xy: "y = x" by simp
  show ?case
  proof (cases x)
    case (Inl err)
    with a b xy show ?thesis by simp
  next
    case (Inr l1)
    with a b xy Cons.IH [of l1 a1 b1] show ?thesis by simp
  qed
qed

lemma for_rows_counters:
  assumes "0 < rownum l" and "for_rows rows l self = (Inr l', self')"
  shows "total_tests self' = total_tests self + int (leaf_rows rows)
       \<and> pass_tests self' = pass_tests self + int (status_rows ''OK'' rows)
       \<and> fail_tests self' = fail_tests self + int (status_rows ''Failed'' rows)
       \<and> skip_tests self' = skip_tests self + int (status_rows ''?'' rows)"
  using assms
proof (induction rows arbitrary: l self)
  case Nil
  then show ?case by (simp add: leaf_rows_def status_rows_def)
next
  case (Cons row rows)
  from Cons.prems(2) obtain l1 self1 where
    body: "for_body row l self = (Inr l1, self1)" and
    rest: "for_rows rows l1 self1 = (Inr l', self')"
    by (auto split: prod.splits sum.splits)
  from body have pos: "0 < rownum l1"
    by (simp add: for_body_rownum)
  note IH = Cons.IH [OF pos rest]
  note step = for_body_counters [OF Cons.prems(1) body]
  from IH step show ?case
    by (simp add: leaf_rows_def status_rows_def)
qed

lemma for_rows_result: "for_rows rows l self = (r, self') \<Longrightarrow> result self' = result self"
proof (induction rows arbitrary: l self)
  case Nil
  then show ?case by simp
next
  case (Cons row rows)
  obtain x s1 where body: "for_body row l self = (x, s1)" by (cases "for_body row l self")
  then have r1: "result s1 = result self" by (rule for_body_result)
  show ?case
  proof (cases x)
    case (Inl err)
    with body Cons.prems r1 show ?thesis by simp
  next
    case (Inr l1)
    with body Cons.prems have "for_rows rows l1 s1 = (r, self')" by simp
    then have "result self' = result s1" by (rule Cons.IH)
    with r1 show ?thesis by simp
  qed
qed

lemma for_rows_total_mono: "for_rows rows l self = (r, self') \<Longrightarrow> total_tests self \<le> total_tests self'"
proof (induction rows arbitrary: l self)
  case Nil
  then show ?case by simp
next
  case (Cons row rows)
  obtain x s1 where body: "for_body row l self = (x, s1)" by (cases "for_body row l self")
  then have r1: "total_tests self \<le> total_tests s1" by (rule for_body_total_mono)
  show ?case
  proof (cases x)
    case (Inl err)
    with body Cons.prems r1 show ?thesis by simp
  next
    case (Inr l1)
    with body Cons.prems have "for_rows rows l1 s1 = (r, self')" by simp
    then have "total_tests s1 \<le> total_tests self'" by (rule Cons.IH)
    with r1 show ?thesis by simp
  qed
qed

lemma for_rows_raises:
  "for_rows rows l self = (Inl err, self') \<Longrightarrow> err = NameError \<and> total_tests self < total_tests self'"
proof (induction rows arbitrary: l self)
  case Nil
  then show ?case by simp
next
  case (Cons row rows)
  obtain x s1 where body: "for_body row l self = (x, s1)" by (cases "for_body row l self")
  show ?case
  proof (cases x)
    case (Inl e1)
    with body Cons.prems have "e1 = err" "s1 = self'" by simp_all
    with body Inl for_body_raises [of row l self err self'] show ?thesis by simp
  next
    case (Inr l1)
    with body Cons.prems have "for_rows rows l1 s1 = (Inl err, self')" by simp
    then have "err = NameError \<and> total_tests s1 < total_tests self'" by (rule Cons.IH)
    moreover from body have "total_tests self \<le> total_tests s1" by (rule for_body_total_mono)
    ultimately show ?thesis by simp
  qed
qed

lemma for_body_test_name:
  assumes "0 < rownum l" and "for_body row l self = (Inr l', self')"
  shows "(test_name l' \<noteq> None) = (length row = 2 \<or> test_name l \<noteq> None)"
  using assms by (auto simp: for_body_def Let_def next_row_def split: if_splits option.splits)

lemma for_body_returns:
  assumes "0 < rownum l"
  shows "(\<exists>l'. fst (for_body row l self) = Inr l') = (length row = 3 \<longrightarrow> test_name l \<noteq> None)"
  using assms by (auto simp: for_body_def Let_def split: if_splits option.splits)

lemma for_rows_returns:
  assumes "0 < rownum l"
  shows "(\<exists>l'. fst (for_rows rows l self) = Inr l') = grouped (test_name l \<noteq> None) rows"
  using assms
proof (induction rows arbitrary: l self)
  case Nil
  then show ?case by simp
next
  case (Cons row rows)
  obtain x s1 where body: "for_body row l self = (x, s1)" by (cases "for_body row l self")
  show ?case
  proof (cases x)
    case (Inl err)
    with body for_body_returns [OF Cons.prems, of row self]
    have "length row = 3" "test_name l = None" by auto
    with body Inl show ?thesis by simp
  next
    case (Inr l1)
    with body have b: "for_body row l self = (Inr l1, s1)" by simp
    from b have pos: "0 < rownum l1" by (simp add: for_body_rownum)
    from for_body_returns [OF Cons.prems, of row self] b
    have ok: "length row = 3 \<longrightarrow> test_name l \<noteq> None" by auto
    from for_body_test_name [OF Cons.prems b]
    have tn: "(test_name l1 \<noteq> None) = (length row = 2 \<or> test_name l \<noteq> None)" .
    from Cons.IH [OF pos, of s1] b tn ok show ?thesis by auto
  qed
qed

lemma grouped_iff:
  "grouped seen rows =
     (\<forall>i < length rows. length (rows ! i) = 3 \<longrightarrow> seen \<or> (\<exists>j < i. length (rows ! j) = 2))"
proof (induction rows arbitrary: seen)
  case Nil
  show ?case by simp
next
  case (Cons row rows)
  show ?case
    by (simp add: Cons.IH All_less_Suc2 Ex_less_Suc2)
qed

subsection \<open>The whole of \<^verbatim>\<open>parse_results\<close>\<close>

lemmas parse_eval =
  parse_results_def MTSLauncher_init_def init_locals_def for_body_def next_row_def
  count_status_def Let_def set_result_def set_details_def truediv_def lstrip_def is_space_def
  path_join_def sep_def mts_install_dir_def

text \<open>
  The percentages of some counters, as Python prints them: 50.0, 25.0,
  28.000000000000004, 28.999999999999996 and 33.33333333333333.
\<close>

lemma percentage_values:
  "float_mul 100 (binary64 (1 / 2)) = 50"
  "float_mul 100 (binary64 (1 / 4)) = 25"
  "float_mul 100 (binary64 (7 / 25)) = 7881299347898369 / 281474976710656"
  "float_mul 100 (binary64 (29 / 100)) = 8162774324609023 / 281474976710656"
  "float_mul 100 (binary64 (1 / 3)) = 2345624805922133 / 70368744177664"
  by code_simp+

lemma for_rows_init:
  "for_rows (header # rows) init_locals self = for_rows rows (next_row [] init_locals) self"
  by (simp add: for_body_header init_locals_def)

lemma rownum_after_header: "0 < rownum (next_row [] init_locals)"
  by (simp add: next_row_def)

lemma test_name_after_header: "test_name (next_row [] init_locals) = None"
  by (simp add: next_row_def init_locals_def)

lemma set_details_set_result_fields [simp]:
  "total_tests (set_details td (set_result s)) = total_tests s"
  "pass_tests (set_details td (set_result s)) = pass_tests s"
  "fail_tests (set_details td (set_result s)) = fail_tests s"
  "skip_tests (set_details td (set_result s)) = skip_tests s"
  "result (set_details td (set_result s)) =
     (if total_tests s = 0 then result s
      else float_mul 100 (binary64 (of_int (pass_tests s) / of_int (total_tests s))))"
  by (simp_all add: set_details_def set_result_def truediv_def)

lemma parse_results_cases:
  obtains (raised) err s where "for_rows rows init_locals self = (Inl err, s)"
      "parse_results (Inr rows) self = (Inl err, s)"
  | (returned) l s where "for_rows rows init_locals self = (Inr l, s)"
      "parse_results (Inr rows) self = (Inr (), set_details (tests_data l) (set_result s))"
proof (cases "for_rows rows init_locals self")
  case (Pair x s)
  then show ?thesis
    by (cases x) (auto simp: parse_results_def intro: raised returned)
qed

lemma parse_results_Inr:
  assumes "parse_results (Inr rows) self = (Inr u, self')"
  obtains l s where "for_rows rows init_locals self = (Inr l, s)"
    and "self' = set_details (tests_data l) (set_result s)"
  using assms by (cases rule: parse_results_cases [of rows self]) auto

lemma for_rows_init_counters:
  assumes "for_rows rows init_locals self = (Inr l, s)"
  shows "total_tests s = total_tests self + int (leaf_rows (tl rows))
       \<and> pass_tests s = pass_tests self + int (status_rows ''OK'' (tl rows))
       \<and> fail_tests s = fail_tests self + int (status_rows ''Failed'' (tl rows))
       \<and> skip_tests s = skip_tests self + int (status_rows ''?'' (tl rows))"
proof (cases rows)
  case Nil
  with assms show ?thesis by (simp add: leaf_rows_def status_rows_def)
next
  case (Cons header rest)
  with assms have "for_rows rest (next_row [] init_locals) self = (Inr l, s)"
    by (simp only: for_rows_init)
  from for_rows_counters [OF rownum_after_header this] Cons show ?thesis by simp
qed

lemma parse_results_counters:
  assumes "parse_results (Inr rows) self = (Inr u, self')"
  shows "total_tests self' = total_tests self + int (leaf_rows (tl rows))
       \<and> pass_tests self' = pass_tests self + int (status_rows ''OK'' (tl rows))
       \<and> fail_tests self' = fail_tests self + int (status_rows ''Failed'' (tl rows))
       \<and> skip_tests self' = skip_tests self + int (status_rows ''?'' (tl rows))"
proof -
  from assms obtain l s where
    loop: "for_rows rows init_locals self = (Inr l, s)" and
    self': "self' = set_details (tests_data l) (set_result s)"
    by (rule parse_results_Inr)
  from for_rows_init_counters [OF loop] self' show ?thesis by simp
qed

lemma parse_results_again:
  assumes "parse_results (Inr rows) self = (Inr u, self1)"
  shows "\<exists>self2. parse_results (Inr rows) other = (Inr u, self2)"
proof -
  from assms obtain l s where
    loop: "for_rows rows init_locals self = (Inr l, s)"
    by (rule parse_results_Inr)
  from for_rows_fst_indep [of rows init_locals other self] loop
  have "fst (for_rows rows init_locals other) = Inr l" by simp
  then obtain s' where "for_rows rows init_locals other = (Inr l, s')"
    by (cases "for_rows rows init_locals other") simp
  then show ?thesis
    by (simp add: parse_results_def)
qed

lemma parsed_once_counters:
  "total_tests parsed_once = 4" "pass_tests parsed_once = 1" "fail_tests parsed_once = 1" "skip_tests parsed_once = 1"
  by (simp_all add: parsed_once_def sample_csv_def parse_eval)

lemma parse_results_returns:
  "(fst (parse_results (Inr rows) self) = Inr ()) = grouped False (tl rows)"
proof (cases rows)
  case Nil
  then show ?thesis by (simp add: parse_results_def)
next
  case (Cons header rest)
  let ?l = "next_row [] init_locals"
  have loop: "for_rows rows init_locals self = for_rows rest ?l self"
    unfolding Cons by (rule for_rows_init)
  from for_rows_returns [OF rownum_after_header, of rest self]
  have "(\<exists>l'. fst (for_rows rest ?l self) = Inr l') = grouped False rest"
    by (simp add: test_name_after_header)
  moreover have "(fst (parse_results (Inr rows) self) = Inr ()) = (\<exists>l'. fst (for_rows rest ?l self) = Inr l')"
    by (cases rule: parse_results_cases [of rows self]) (simp_all add: loop)
  ultimately show ?thesis using Cons by simp
qed

lemma parse_results_raises:
  "fst (parse_results (Inr rows) self) = Inl err \<Longrightarrow> err = NameError"
  by (cases rule: parse_results_cases [of rows self]) (auto dest: for_rows_raises)

subsection \<open>The test definition and the enabled test cases\<close>

lemma names_below_no_testcase: "testcase_nodes x = 0 \<Longrightarrow> names_below below x = []"
  by (induction below x rule: names_below.induct) auto

lemma length_names_below: "length (names_below below x) \<le> testcase_nodes x"
proof (induction below x rule: names_below.induct)
  case (1 below t)
  show ?case by simp
next
  case (2 below tag attrs children)
  have "length (concat (map (names_below (below \<or> tag = ''test'')) children))
          = sum_list (map (\<lambda>c. length (names_below (below \<or> tag = ''test'') c)) children)"
    by (simp add: length_concat comp_def)
  also have "\<dots> \<le> sum_list (map testcase_nodes children)"
    by (rule sum_list_mono) (simp add: "2.IH")
  finally show ?case
    by (auto split: option.splits)
qed

lemma for_enabled_iff: "for_enabled declared requested = (\<forall>name \<in> set requested. name \<in> set declared)"
  by (induction requested) auto

section \<open>The claims\<close>

subsection \<open>The counters of \<^verbatim>\<open>parse_results\<close>\<close>

text \<open>
  C1. When \<^verbatim>\<open>parse_results\<close> has consumed the whole report, the total counter is the
  sum of the pass, fail and skip counters and of the number of 3-field rows whose
  status is none of \<^verbatim>\<open>OK\<close>, \<^verbatim>\<open>Failed\<close>, \<^verbatim>\<open>?\<close>. The rows are those after the
  header row, which the loop skips whatever its fields are, and the driver starts with
  counters that add up, as the constructor leaves them (all zero).
\<close>

theorem counters_balance:
  assumes parsed: "parse_results (Inr rows) self = (Inr u, self')"
    and balanced: "total_tests self = pass_tests self + fail_tests self + skip_tests self"
  shows "total_tests self' =
           pass_tests self' + fail_tests self' + skip_tests self' + int (unrecognized_rows (tl rows))"
proof -
  from parsed obtain l s where
    loop: "for_rows rows init_locals self = (Inr l, s)" and
    self': "self' = set_details (tests_data l) (set_result s)"
    by (rule parse_results_Inr)
  from loop have "uncounted s = uncounted self + int (unrecognized_rows (tl rows))"
    by (rule for_rows_init_uncounted)
  moreover from balanced have "uncounted self = 0"
    by (simp add: uncounted_def)
  moreover from self' have "uncounted self' = uncounted s"
    by (simp add: uncounted_set_details_set_result)
  ultimately show ?thesis
    by (simp add: uncounted_def)
qed

theorem counters_balance_witness:
  "fst (parse_results (Inr sample_csv) (MTSLauncher_init ''/res'')) = Inr ()
   \<and> unrecognized_rows (tl sample_csv) = 1
   \<and> total_tests (snd (parse_results (Inr sample_csv) (MTSLauncher_init ''/res''))) = 1 + 1 + 1 + 1"
proof -
  let ?d = "MTSLauncher_init ''/res''"
  have ok: "fst (parse_results (Inr sample_csv) ?d) = Inr ()"
    by (simp add: sample_csv_def parse_eval)
  then have parsed: "parse_results (Inr sample_csv) ?d = (Inr (), snd (parse_results (Inr sample_csv) ?d))"
    by (metis prod.collapse)
  have balanced: "total_tests ?d = pass_tests ?d + fail_tests ?d + skip_tests ?d"
    by (simp add: MTSLauncher_init_def)
  have u: "unrecognized_rows (tl sample_csv) = 1"
    by (simp add: sample_csv_def unrecognized_rows_def unrecognized_def)
  have p: "pass_tests (snd (parse_results (Inr sample_csv) ?d)) = 1"
    "fail_tests (snd (parse_results (Inr sample_csv) ?d)) = 1"
    "skip_tests (snd (parse_results (Inr sample_csv) ?d)) = 1"
    by (simp_all add: sample_csv_def parse_eval)
  from counters_balance [OF parsed balanced] ok u p show ?thesis by simp
qed

text \<open>
  C2. After \<^verbatim>\<open>parse_results\<close> has consumed a report, a total above zero gives the
  percentage that Python computes for \<^verbatim>\<open>100 * (pass_tests / total_tests)\<close>: the
  float nearest to the quotient of the two counters, multiplied by 100 and rounded to
  the nearest float again. A total of zero means that \<^verbatim>\<open>parse_results\<close> did not
  raise, and the percentage is the one the driver had before. The counters of the
  driver are never negative, since they start at zero and only grow.
\<close>

theorem percentage_after_parse:
  assumes nonneg: "0 \<le> total_tests self"
    and parsed: "parse_results (Inr rows) self = (r, self')"
  shows "(r = Inr () \<and> 0 < total_tests self' \<longrightarrow>
            result self' =
              float_mul 100 (binary64 (of_int (pass_tests self') / of_int (total_tests self'))))
       \<and> (total_tests self' = 0 \<longrightarrow> r = Inr () \<and> result self' = result self)"
proof (cases rule: parse_results_cases [of rows self])
  case (raised err s)
  from raised(1) have "total_tests self < total_tests s"
    by (simp add: for_rows_raises)
  with nonneg raised(2) parsed show ?thesis by auto
next
  case (returned l s)
  from returned(1) have "result s = result self"
    by (rule for_rows_result)
  with returned(2) parsed show ?thesis by auto
qed

theorem percentage_after_parse_witness:
  "fst (parse_results (Inr sample_csv) (MTSLauncher_init ''/res'')) = Inr ()
   \<and> result (snd (parse_results (Inr sample_csv) (MTSLauncher_init ''/res''))) = 25
   \<and> parse_results (Inr [[''Test'', ''Duration'', ''Status'']]) ((MTSLauncher_init ''/res'')\<lparr>result := 7\<rparr>)
       = (Inr (), set_details [[]] ((MTSLauncher_init ''/res'')\<lparr>result := 7\<rparr>))
   \<and> result (set_details [[]] ((MTSLauncher_init ''/res'')\<lparr>result := 7\<rparr>)) = 7"
proof -
  let ?d = "MTSLauncher_init ''/res''"
  let ?e = "?d\<lparr>result := 7\<rparr>"
  let ?h = "[[''Test'', ''Duration'', ''Status'']]"
  have n: "0 \<le> total_tests ?d" "0 \<le> total_tests ?e"
    by (simp_all add: MTSLauncher_init_def)
  have a: "parse_results (Inr sample_csv) ?d =
             (fst (parse_results (Inr sample_csv) ?d), snd (parse_results (Inr sample_csv) ?d))"
    by simp
  have b: "parse_results (Inr ?h) ?e = (Inr (), set_details [[]] ?e)"
    by (simp add: parse_eval)
  have c: "fst (parse_results (Inr sample_csv) ?d) = Inr ()"
    "total_tests (snd (parse_results (Inr sample_csv) ?d)) = 4"
    "pass_tests (snd (parse_results (Inr sample_csv) ?d)) = 1"
    by (simp_all add: sample_csv_def parse_eval)
  have z: "total_tests (set_details [[]] ?e) = 0"
    by (simp add: set_details_def MTSLauncher_init_def)
  from percentage_after_parse [OF n(1) a] percentage_after_parse [OF n(2) b] b c z
  show ?thesis by (simp add: percentage_values)
qed

text \<open>
  A report with 7 passed test cases out of 25: the percentage that the driver stores
  is the float 28.000000000000004, and not 28, which is 100 times 7 by 25.
\<close>

theorem percentage_counterexample:
  "fst (parse_results (Inr report_7_of_25) (MTSLauncher_init ''/res'')) = Inr ()
   \<and> pass_tests (snd (parse_results (Inr report_7_of_25) (MTSLauncher_init ''/res''))) = 7
   \<and> total_tests (snd (parse_results (Inr report_7_of_25) (MTSLauncher_init ''/res''))) = 25
   \<and> result (snd (parse_results (Inr report_7_of_25) (MTSLauncher_init ''/res'')))
       = 7881299347898369 / 281474976710656
   \<and> result (snd (parse_results (Inr report_7_of_25) (MTSLauncher_init ''/res'')))
       \<noteq> 100 * (7 / 25)"
proof -
  let ?d = "MTSLauncher_init ''/res''"
  have ok: "fst (parse_results (Inr report_7_of_25) ?d) = Inr ()"
    by (simp add: report_7_of_25_def parse_results_returns eval_nat_numeral)
  then have parsed: "parse_results (Inr report_7_of_25) ?d = (Inr (), snd (parse_results (Inr report_7_of_25) ?d))"
    by (metis prod.collapse)
  have rows: "leaf_rows (tl report_7_of_25) = 25" "status_rows ''OK'' (tl report_7_of_25) = 7"
    by (simp_all add: report_7_of_25_def leaf_rows_def status_rows_def)
  from parse_results_counters [OF parsed] rows
  have counters: "total_tests (snd (parse_results (Inr report_7_of_25) ?d)) = 25"
    "pass_tests (snd (parse_results (Inr report_7_of_25) ?d)) = 7"
    by (simp_all add: MTSLauncher_init_def)
  from parsed obtain l s where
    loop: "for_rows report_7_of_25 init_locals ?d = (Inr l, s)" and
    after: "snd (parse_results (Inr report_7_of_25) ?d) = set_details (tests_data l) (set_result s)"
    by (rule parse_results_Inr)
  from after counters have "total_tests s = 25" "pass_tests s = 7"
    by simp_all
  with after have res: "result (snd (parse_results (Inr report_7_of_25) ?d))
                 = 7881299347898369 / 281474976710656"
    by (simp add: percentage_values)
  from ok counters res show ?thesis by simp
qed

text \<open>
  C3. \<^verbatim>\<open>parse_results\<close> does not reset the counters, it adds to them: a parse that
  returns adds to the total the number of 3-field rows after the header, and to the
  pass, fail and skip counters the numbers of those with the status \<^verbatim>\<open>OK\<close>,
  \<^verbatim>\<open>Failed\<close> and \<^verbatim>\<open>?\<close>. A second parse of the same rows on the same driver returns
  too and adds the same numbers again. So the counters after the second parse are
  those after the first only for a report without 3-field rows after the header, and
  from a fresh driver they are twice those after the first.
\<close>

theorem reparse_accumulates:
  assumes first: "parse_results (Inr rows) self = (Inr u, self1)"
  shows "\<exists>self2. parse_results (Inr rows) self1 = (Inr u, self2)
           \<and> total_tests self1 = total_tests self + int (leaf_rows (tl rows))
           \<and> total_tests self2 = total_tests self1 + int (leaf_rows (tl rows))
           \<and> pass_tests self1 = pass_tests self + int (status_rows ''OK'' (tl rows))
           \<and> pass_tests self2 = pass_tests self1 + int (status_rows ''OK'' (tl rows))
           \<and> fail_tests self1 = fail_tests self + int (status_rows ''Failed'' (tl rows))
           \<and> fail_tests self2 = fail_tests self1 + int (status_rows ''Failed'' (tl rows))
           \<and> skip_tests self1 = skip_tests self + int (status_rows ''?'' (tl rows))
           \<and> skip_tests self2 = skip_tests self1 + int (status_rows ''?'' (tl rows))"
proof -
  from parse_results_again [OF first] obtain self2 where
    second: "parse_results (Inr rows) self1 = (Inr u, self2)" by blast
  from parse_results_counters [OF first] parse_results_counters [OF second] second
  show ?thesis by blast
qed

theorem reparse_accumulates_witness:
  "parse_results (Inr sample_csv) (MTSLauncher_init ''/res'') = (Inr (), parsed_once)
   \<and> parse_results (Inr sample_csv) parsed_once = (Inr (), parsed_twice)
   \<and> leaf_rows (tl sample_csv) = 4
   \<and> total_tests parsed_once = 4 \<and> total_tests parsed_twice = 4 + 4"
proof -
  let ?d = "MTSLauncher_init ''/res''"
  have "fst (parse_results (Inr sample_csv) ?d) = Inr ()"
    by (simp add: sample_csv_def parse_eval)
  then have first: "parse_results (Inr sample_csv) ?d = (Inr (), parsed_once)"
    unfolding parsed_once_def by (metis prod.collapse)
  have leaves: "leaf_rows (tl sample_csv) = 4"
    by (simp add: sample_csv_def leaf_rows_def)
  from reparse_accumulates [OF first] obtain self2 where
    second: "parse_results (Inr sample_csv) parsed_once = (Inr (), self2)" and
    total: "total_tests self2 = total_tests parsed_once + int (leaf_rows (tl sample_csv))"
    by blast
  from second have "self2 = parsed_twice"
    by (simp add: parsed_twice_def)
  with first second total leaves parsed_once_counters show ?thesis
    by simp
qed

text \<open>
  The sample report parsed twice on one driver: the counters are 4, 1, 1, 1 after the
  first parse and 8, 2, 2, 2 after the second.
\<close>

theorem reparse_counterexample:
  "parse_results (Inr sample_csv) (MTSLauncher_init ''/res'') = (Inr (), parsed_once)
   \<and> parse_results (Inr sample_csv) parsed_once = (Inr (), parsed_twice)
   \<and> total_tests parsed_once = 4 \<and> total_tests parsed_twice = 8
   \<and> pass_tests parsed_once = 1 \<and> pass_tests parsed_twice = 2
   \<and> fail_tests parsed_once = 1 \<and> fail_tests parsed_twice = 2
   \<and> skip_tests parsed_once = 1 \<and> skip_tests parsed_twice = 2"
proof -
  let ?d = "MTSLauncher_init ''/res''"
  have "fst (parse_results (Inr sample_csv) ?d) = Inr ()"
    by (simp add: sample_csv_def parse_eval)
  then have first: "parse_results (Inr sample_csv) ?d = (Inr (), parsed_once)"
    unfolding parsed_once_def by (metis prod.collapse)
  have "fst (parse_results (Inr sample_csv) parsed_once) = Inr ()"
    unfolding parsed_once_def by (simp add: sample_csv_def parse_eval)
  then have second: "parse_results (Inr sample_csv) parsed_once = (Inr (), parsed_twice)"
    unfolding parsed_twice_def by (metis prod.collapse)
  have "total_tests parsed_twice = 8" "pass_tests parsed_twice = 2" "fail_tests parsed_twice = 2" "skip_tests parsed_twice = 2"
    unfolding parsed_twice_def parsed_once_def by (simp_all add: sample_csv_def parse_eval)
  with first second parsed_once_counters show ?thesis by simp
qed

text \<open>
  C9. Scenario C: a header row, a 2-field group row and two 3-field rows with the
  statuses \<^verbatim>\<open>OK\<close> and \<^verbatim>\<open>Failed\<close>, parsed on a fresh driver, give total 2, pass 1,
  fail 1, skip 0 and the percentage 50, whatever the other fields are.
\<close>

theorem scenario_C:
  "fst (parse_results (Inr [header, [g1, g2], [n1, x1, ''OK''], [n2, x2, ''Failed'']]) (MTSLauncher_init rd)) = Inr ()
   \<and> total_tests (snd (parse_results (Inr [header, [g1, g2], [n1, x1, ''OK''], [n2, x2, ''Failed'']]) (MTSLauncher_init rd))) = 2
   \<and> pass_tests (snd (parse_results (Inr [header, [g1, g2], [n1, x1, ''OK''], [n2, x2, ''Failed'']]) (MTSLauncher_init rd))) = 1
   \<and> fail_tests (snd (parse_results (Inr [header, [g1, g2], [n1, x1, ''OK''], [n2, x2, ''Failed'']]) (MTSLauncher_init rd))) = 1
   \<and> skip_tests (snd (parse_results (Inr [header, [g1, g2], [n1, x1, ''OK''], [n2, x2, ''Failed'']]) (MTSLauncher_init rd))) = 0
   \<and> result (snd (parse_results (Inr [header, [g1, g2], [n1, x1, ''OK''], [n2, x2, ''Failed'']]) (MTSLauncher_init rd))) = 50"
  by (simp add: parse_eval percentage_values)

text \<open>
  C10. \<^verbatim>\<open>parse_results\<close> raises \<^verbatim>\<open>NameError\<close> on every report whose first row
  after the header has three fields. It returns exactly when every 3-field row after
  the header has a 2-field row after the header before it, and when it does not
  return the exception is \<^verbatim>\<open>NameError\<close>.
\<close>

theorem parse_results_unbound_test_name:
  "fst (parse_results (Inr (header # [a, b, c] # rest)) self) = Inl NameError
   \<and> (fst (parse_results (Inr rows) self) = Inr ()) =
       (\<forall>i < length rows. 0 < i \<and> length (rows ! i) = 3 \<longrightarrow>
          (\<exists>j < i. 0 < j \<and> length (rows ! j) = 2))
   \<and> (fst (parse_results (Inr rows) self) = Inr () \<or> fst (parse_results (Inr rows) self) = Inl NameError)"
proof -
  have first: "fst (parse_results (Inr (header # [a, b, c] # rest)) self) = Inl NameError"
    by (simp add: parse_results_def for_body_def init_locals_def next_row_def)
  have "grouped False (tl rows) =
          (\<forall>i < length rows. 0 < i \<and> length (rows ! i) = 3 \<longrightarrow>
             (\<exists>j < i. 0 < j \<and> length (rows ! j) = 2))"
  proof (cases rows)
    case Nil
    then show ?thesis by simp
  next
    case (Cons h rest)
    then show ?thesis
      by (simp add: grouped_iff All_less_Suc2 Ex_less_Suc2)
  qed
  then have iff: "(fst (parse_results (Inr rows) self) = Inr ()) =
       (\<forall>i < length rows. 0 < i \<and> length (rows ! i) = 3 \<longrightarrow>
          (\<exists>j < i. 0 < j \<and> length (rows ! j) = 2))"
    by (simp add: parse_results_returns)
  have "fst (parse_results (Inr rows) self) = Inr () \<or> fst (parse_results (Inr rows) self) = Inl NameError"
  proof (cases "fst (parse_results (Inr rows) self)")
    case (Inl err)
    then show ?thesis using parse_results_raises by simp
  next
    case (Inr u)
    then show ?thesis by simp
  qed
  with first iff show ?thesis by blast
qed

theorem parse_results_unbound_test_name_witness:
  "fst (parse_results (Inr [[''Test'', ''Duration'', ''Status''], [''a'', ''1'', ''OK'']])
          (MTSLauncher_init ''/res'')) = Inl NameError
   \<and> fst (parse_results (Inr sample_csv) (MTSLauncher_init ''/res'')) = Inr ()"
proof -
  have "fst (parse_results (Inr sample_csv) (MTSLauncher_init ''/res'')) = Inr ()"
    by (simp add: sample_csv_def parse_eval)
  with parse_results_unbound_test_name
         [of "[''Test'', ''Duration'', ''Status'']" "''a''" "''1''" "''OK''" "[]"
             "MTSLauncher_init ''/res''" sample_csv]
  show ?thesis by simp
qed

subsection \<open>The enabled test cases\<close>

text \<open>
  C4. \<^verbatim>\<open>check_enabled_mts_test_cases\<close> returns true if and only if every requested
  name is one of the declared names of the driver; for the empty request it returns
  true.
\<close>

theorem check_enabled_iff:
  "check_enabled_mts_test_cases self requested = (\<forall>name \<in> set requested. name \<in> set (testcases self))
   \<and> check_enabled_mts_test_cases self []"
  by (simp add: check_enabled_mts_test_cases_def for_enabled_iff)

theorem check_enabled_iff_witness:
  "check_enabled_mts_test_cases ((MTSLauncher_init ''/res'')\<lparr>testcases := [''a'', ''b'']\<rparr>) [''b'', ''a'', ''b'']
   \<and> \<not> check_enabled_mts_test_cases ((MTSLauncher_init ''/res'')\<lparr>testcases := [''a'', ''b'']\<rparr>) [''a'', ''c'']
   \<and> check_enabled_mts_test_cases ((MTSLauncher_init ''/res'')\<lparr>testcases := []\<rparr>) []"
  using check_enabled_iff [of "(MTSLauncher_init ''/res'')\<lparr>testcases := [''a'', ''b'']\<rparr>" "[''b'', ''a'', ''b'']"]
    check_enabled_iff [of "(MTSLauncher_init ''/res'')\<lparr>testcases := [''a'', ''b'']\<rparr>" "[''a'', ''c'']"]
    check_enabled_iff [of "(MTSLauncher_init ''/res'')\<lparr>testcases := []\<rparr>" "[]"]
  by simp

subsection \<open>The test definition\<close>

text \<open>
  C7. \<^verbatim>\<open>parse_xml_test_file\<close> returns the number of the names it extracts and
  stores them: for a well-formed document the number of names the query finds, which
  is 0 with an empty stored list when the document has no \<^verbatim>\<open>testcase\<close> element; for
  a document that is not well-formed it returns -1, which is not 0 and is no count of
  a well-formed document.
\<close>

theorem parse_xml_test_file_count:
  "parse_xml_test_file (Inr doc) self =
     (Inr (int (length (xpath_test_testcase_name doc))), self\<lparr>testcases := xpath_test_testcase_name doc\<rparr>)
   \<and> (testcase_nodes doc = 0 \<longrightarrow>
        parse_xml_test_file (Inr doc) self = (Inr 0, self\<lparr>testcases := []\<rparr>))
   \<and> parse_xml_test_file (Inl XMLSyntaxError) self = (Inr (- 1), self)
   \<and> fst (parse_xml_test_file (Inl XMLSyntaxError) self) \<noteq> Inr 0
   \<and> fst (parse_xml_test_file (Inl XMLSyntaxError) self) \<noteq> fst (parse_xml_test_file (Inr doc) self)"
  by (simp add: parse_xml_test_file_def xpath_test_testcase_name_def names_below_no_testcase)

theorem parse_xml_test_file_count_witness:
  "parse_xml_test_file (etree_parse sample_env ''test.xml'') (MTSLauncher_init ''/res'')
     = (Inr 2, (MTSLauncher_init ''/res'')\<lparr>testcases := [''a'', ''b'']\<rparr>)
   \<and> parse_xml_test_file (Inr (Element ''test'' [(''name'', ''t'')] [Text ''x'']))
        ((MTSLauncher_init ''/res'')\<lparr>testcases := [''a'']\<rparr>)
     = (Inr 0, (MTSLauncher_init ''/res'')\<lparr>testcases := []\<rparr>)
   \<and> parse_xml_test_file (Inl XMLSyntaxError) ((MTSLauncher_init ''/res'')\<lparr>testcases := [''a'']\<rparr>)
     = (Inr (- 1), (MTSLauncher_init ''/res'')\<lparr>testcases := [''a'']\<rparr>)"
proof -
  let ?doc = "Element ''test'' [(''name'', ''t'')]
                [Element ''testcase'' [(''name'', ''a'')] [],
                 Element ''for'' [] [Element ''testcase'' [(''name'', ''b'')] []]]"
  let ?none = "Element ''test'' [(''name'', ''t'')] [Text ''x'']"
  have doc: "etree_parse sample_env ''test.xml'' = Inr ?doc"
    by (simp add: sample_env_def)
  have names: "xpath_test_testcase_name ?doc = [''a'', ''b'']"
    by (simp add: xpath_test_testcase_name_def)
  have none: "testcase_nodes ?none = 0"
    by simp
  from parse_xml_test_file_count [of ?doc "MTSLauncher_init ''/res''"]
    parse_xml_test_file_count [of ?none "(MTSLauncher_init ''/res'')\<lparr>testcases := [''a'']\<rparr>"]
    doc names none
  show ?thesis by (simp add: xpath_test_testcase_name_def)
qed

subsection \<open>\<^verbatim>\<open>execute\<close> and \<^verbatim>\<open>run\<close>\<close>

text \<open>
  C5. When \<^verbatim>\<open>execute\<close> is called with a test file and with a list of enabled test
  cases one of which is not declared, it returns -3 and makes no call at all: no
  clean-up of the output, no launch. The code -3 is neither 0 nor the code that a call
  without \<^verbatim>\<open>test_file\<close> returns.
\<close>

theorem execute_rejects_undeclared:
  assumes given: "kw_test_file kw = Some test_file"
    and enabled: "kw_testcases kw = Some enabled_testcases"
    and absent: "name \<in> set enabled_testcases" "name \<notin> set (testcases self)"
  shows "execute e kw self = (Inr (- 3), [])
       \<and> fst (execute e kw self) \<noteq> Inr 0
       \<and> fst (execute e kw self) \<noteq> fst (execute e (kw\<lparr>kw_test_file := None\<rparr>) self)"
proof -
  from absent have nonempty: "enabled_testcases \<noteq> []" by auto
  from absent have "\<not> check_enabled_mts_test_cases self enabled_testcases"
    by (auto simp: check_enabled_mts_test_cases_def for_enabled_iff)
  with nonempty given enabled have "execute e kw self = (Inr (- 3), [])"
    by (simp add: execute_def except_KeyError_def)
  moreover have "execute e (kw\<lparr>kw_test_file := None\<rparr>) self = (Inr (- 1), [])"
    by (simp add: execute_def except_KeyError_def)
  ultimately show ?thesis by simp
qed

theorem execute_rejects_undeclared_witness:
  "execute sample_env sample_kwargs ((MTSLauncher_init ''/res'')\<lparr>testcases := [''a'', ''b'']\<rparr>) = (Inr (- 3), [])"
proof -
  let ?self = "(MTSLauncher_init ''/res'')\<lparr>testcases := [''a'', ''b'']\<rparr>"
  have "kw_test_file sample_kwargs = Some ''test.xml''"
    and "kw_testcases sample_kwargs = Some [''a'', ''c'']"
    and "''c'' \<in> set [''a'', ''c'']"
    and "''c'' \<notin> set (testcases ?self)"
    by (simp_all add: sample_kwargs_def)
  from execute_rejects_undeclared [OF this] show ?thesis by simp
qed

text \<open>
  C8. When \<^verbatim>\<open>execute\<close> is called without \<^verbatim>\<open>test_file\<close>, it returns the failure
  code -1 and makes no call at all.
\<close>

theorem execute_missing_test_file:
  assumes "kw_test_file kw = None"
  shows "execute e kw self = (Inr (- 1), []) \<and> fst (execute e kw self) \<noteq> Inr 0"
  using assms by (simp add: execute_def except_KeyError_def)

theorem execute_missing_test_file_witness:
  "execute sample_env (sample_kwargs\<lparr>kw_test_file := None\<rparr>) (MTSLauncher_init ''/res'') = (Inr (- 1), [])"
  using execute_missing_test_file [of "sample_kwargs\<lparr>kw_test_file := None\<rparr>" sample_env "MTSLauncher_init ''/res''"]
  by simp

text \<open>
  C6. When the test definition has no \<^verbatim>\<open>testcase\<close> element, \<^verbatim>\<open>run\<close> returns the
  run-error status. Its only call is the parse of the definition: nothing is launched
  and the report is not opened; the counters and the details of the driver are as
  they were.
\<close>

theorem run_without_testcases:
  assumes given: "kw_test_file kw = Some test_file"
    and doc: "etree_parse e test_file = Inr doc"
    and none: "testcase_nodes doc = 0"
  shows "run e kw self = (EX_RUN_ERROR, self\<lparr>result := 0, testcases := []\<rparr>, [EtreeParse test_file])"
proof -
  from none have "xpath_test_testcase_name doc = []"
    by (simp add: xpath_test_testcase_name_def names_below_no_testcase)
  then have "parse_xml_test_file (Inr doc) (self\<lparr>result := 0\<rparr>) =
               (Inr 0, self\<lparr>result := 0, testcases := []\<rparr>)"
    by (simp add: parse_xml_test_file_def)
  with given doc show ?thesis
    by (simp add: run_def)
qed

theorem run_without_testcases_witness:
  "run (sample_env\<lparr>etree_parse := (\<lambda>p. Inr (Element ''test'' [(''name'', ''t'')] [Text ''x'']))\<rparr>)
       sample_kwargs (MTSLauncher_init ''/res'')
     = (EX_RUN_ERROR, MTSLauncher_init ''/res'', [EtreeParse ''test.xml''])"
proof -
  let ?e = "sample_env\<lparr>etree_parse := (\<lambda>p. Inr (Element ''test'' [(''name'', ''t'')] [Text ''x'']))\<rparr>"
  have "kw_test_file sample_kwargs = Some ''test.xml''"
    and "etree_parse ?e ''test.xml'' = Inr (Element ''test'' [(''name'', ''t'')] [Text ''x''])"
    and "testcase_nodes (Element ''test'' [(''name'', ''t'')] [Text ''x'']) = 0"
    by (simp_all add: sample_kwargs_def)
  from run_without_testcases [OF this, of "MTSLauncher_init ''/res''"] show ?thesis
    by (simp add: MTSLauncher_init_def)
qed

end
